theory Spec2Isabelle
  imports Complex_Main
begin

section \<open>Wiki-Synth: usage accounting and admission control\<close>

text \<open>
  A shallow embedding of the metering code of the summary API:
  \<^item> \<open>models/User.js\<close>: the usage counters of a user, the monthly reset,
    \<open>getUsageLimits\<close>, \<open>canMakeApiCall\<close>, \<open>incrementUsage\<close>;
  \<^item> \<open>models/ApiCall.js\<close>: the usage event (\<open>markCompleted\<close>, \<open>markFailed\<close>)
    and, in the same file, the Pricing model (\<open>hasFeature\<close>, \<open>getEffectivePrice\<close>,
    \<open>getPlan\<close>);
  \<^item> \<open>middleware/rateLimit.js\<close>: the plan-based rate-limit middleware;
  \<^item> the summary controller (\<open>getSummary\<close>, \<open>getBatchSummaries\<close>).

  JavaScript numbers that count calls are modelled as \<open>int\<close> (the counters start at 0 and
  only ever have 1 added or are reset to 0; the catalog limits are whole numbers in the
  seed data and by the data model of the specification). Prices are modelled as exact
  \<open>real\<close> numbers: rounding of IEEE doubles is not modelled. Dates are \<open>int\<close>
  milliseconds since the epoch, and the current time is an explicit argument wherever the
  source calls \<open>new Date()\<close> or \<open>Date.now()\<close>.
\<close>

subsection \<open>Pricing (models/ApiCall.js, second schema)\<close>

type_synonym time = int

record plan_limits =
  lim_monthlyCalls :: int
  lim_dailyCalls :: int
  lim_requestsPerMinute :: int
  lim_batchSize :: int

record pricing =
  pr_plan :: string
  pricePerCall :: real
  limits :: plan_limits
  batchProcessing :: bool
  isActive :: bool

text \<open>
  \<open>getEffectivePrice(callCount)\<close>: the price per call, with the two volume discounts that
  the method hard-codes (``10% discount for >10k calls'', ``5% discount for >1k calls'').
\<close>

definition getEffectivePrice :: "pricing \<Rightarrow> int \<Rightarrow> real" where
  "getEffectivePrice p callCount =
     (if callCount > 10000 then pricePerCall p * 0.9
      else if callCount > 1000 then pricePerCall p * 0.95
      else pricePerCall p)"

text \<open>
  The cost calculator as the specification words it (section 4.1): a plan carries a list of
  discount tiers \<open>(callCountThreshold, multiplier)\<close> with strictly increasing thresholds,
  and the tier applied is the one with the highest threshold that is less than or equal to
  the count. This definition follows the specification, not the source; it is only used to
  compare the two.
\<close>

fun spec_best_tier :: "(int \<times> real) option \<Rightarrow> (int \<times> real) list \<Rightarrow> int \<Rightarrow> (int \<times> real) option" where
  "spec_best_tier best [] k = best"
| "spec_best_tier best ((t, m) # ts) k =
     spec_best_tier
       (if t \<le> k \<and> (case best of None \<Rightarrow> True | Some (t0, m0) \<Rightarrow> t0 < t) then Some (t, m) else best)
       ts k"

definition spec_tier_multiplier :: "(int \<times> real) list \<Rightarrow> int \<Rightarrow> real" where
  "spec_tier_multiplier tiers k = (case spec_best_tier None tiers k of None \<Rightarrow> 1 | Some (t, m) \<Rightarrow> m)"

definition spec_unit_price :: "real \<Rightarrow> (int \<times> real) list \<Rightarrow> int \<Rightarrow> real" where
  "spec_unit_price price tiers k = price * spec_tier_multiplier tiers k"

text \<open>
  \<open>hasFeature(featureName)\<close> for the one feature the metering code asks for, and the
  static \<open>getPlan(planName)\<close>, which is \<open>findOne({ plan: planName, isActive: true })\<close>
  on the catalog: the first active document of that plan, or \<open>null\<close>.
\<close>

definition hasFeature_batchProcessing :: "pricing \<Rightarrow> bool" where
  "hasFeature_batchProcessing p = (batchProcessing p = True)"

definition getPlan :: "pricing list \<Rightarrow> string \<Rightarrow> pricing option" where
  "getPlan catalog planName = find (\<lambda>p. pr_plan p = planName \<and> isActive p) catalog"

subsection \<open>User (models/User.js)\<close>

datatype role = RoleUser | RolePremium | RoleEnterprise | RoleAdmin

record usage =
  totalCalls :: int
  monthlyReset :: time
  monthlyCalls :: int
  lastCallAt :: "time option"

record user =
  user_id :: nat
  role :: role
  sub_plan :: string
  usage :: usage
  totalSpent :: real

text \<open>
  The two calendar operations of the JavaScript \<open>Date\<close> object that the code uses are
  library code, taken as parameters: \<open>addMonth\<close> is
  \<open>d.setMonth(d.getMonth() + 1)\<close> and \<open>startOfDay\<close> is \<open>d.setHours(0, 0, 0, 0)\<close>,
  both in the local time zone of the server.
\<close>

record clock =
  addMonth :: "time \<Rightarrow> time"
  startOfDay :: "time \<Rightarrow> time"

definition shouldResetMonthlyUsage :: "clock \<Rightarrow> time \<Rightarrow> user \<Rightarrow> bool" where
  "shouldResetMonthlyUsage clk now u = (now \<ge> addMonth clk (monthlyReset (usage u)))"

definition checkMonthlyReset :: "clock \<Rightarrow> time \<Rightarrow> user \<Rightarrow> user" where
  "checkMonthlyReset clk now u =
     (if shouldResetMonthlyUsage clk now u
      then u\<lparr>usage := (usage u)\<lparr>monthlyCalls := 0, monthlyReset := now\<rparr>\<rparr>
      else u)"

text \<open>
  \<open>getUsageLimits\<close> indexes an object literal with the plan name:
  \<open>limits[this.subscription.plan] || limits.free\<close>. A name that is one of the four keys
  yields its entry. Any other name is looked up along the prototype chain: the names of
  the properties of \<open>Object.prototype\<close> yield a function (or, for \<open>__proto__\<close>, the
  prototype object), which is truthy and is returned as it is, without a \<open>monthly\<close>
  field; every remaining name yields \<open>undefined\<close> and falls back to \<open>limits.free\<close>.
  The schema restricts \<open>subscription.plan\<close> to the four keys.
\<close>

record usage_limits =
  monthly :: int
  daily :: int

datatype limits_lookup = Limits usage_limits | InheritedProperty

definition limits_table :: "(string \<times> usage_limits) list" where
  "limits_table =
     [(''free'', \<lparr>monthly = 100, daily = 10\<rparr>),
      (''basic'', \<lparr>monthly = 1000, daily = 100\<rparr>),
      (''premium'', \<lparr>monthly = 10000, daily = 1000\<rparr>),
      (''enterprise'', \<lparr>monthly = 100000, daily = 10000\<rparr>)]"

definition object_prototype_names :: "string list" where
  "object_prototype_names =
     [''constructor'', ''__defineGetter__'', ''__defineSetter__'', ''hasOwnProperty'',
      ''__lookupGetter__'', ''__lookupSetter__'', ''isPrototypeOf'', ''propertyIsEnumerable'',
      ''toString'', ''valueOf'', ''__proto__'', ''toLocaleString'']"

definition getUsageLimits :: "user \<Rightarrow> limits_lookup" where
  "getUsageLimits u =
     (case map_of limits_table (sub_plan u) of
        Some l \<Rightarrow> Limits l
      | None \<Rightarrow>
          if sub_plan u \<in> set object_prototype_names then InheritedProperty
          else Limits \<lparr>monthly = 100, daily = 10\<rparr>)"

text \<open>
  \<open>canMakeApiCall\<close> is \<open>this.usage.monthlyCalls < limits.monthly\<close>; a comparison with
  \<open>undefined\<close> is false.
\<close>

definition canMakeApiCall :: "user \<Rightarrow> bool" where
  "canMakeApiCall u =
     (case getUsageLimits u of
        Limits l \<Rightarrow> monthlyCalls (usage u) < monthly l
      | InheritedProperty \<Rightarrow> False)"

definition incrementUsage :: "time \<Rightarrow> real \<Rightarrow> user \<Rightarrow> user" where
  "incrementUsage now c u =
     u\<lparr>usage := (usage u)\<lparr>totalCalls := totalCalls (usage u) + 1,
                           monthlyCalls := monthlyCalls (usage u) + 1,
                           lastCallAt := Some now\<rparr>,
       totalSpent := totalSpent u + c\<rparr>"

subsection \<open>ApiCall, the usage event (models/ApiCall.js, first schema)\<close>

datatype response_status = Success | Error | Timeout | Rate_limited

record tokens =
  tk_prompt :: int
  tk_completion :: int
  tk_total :: int

record api_call =
  ac_user :: nat
  endpoint :: string
  responseStatus :: response_status
  responseTime :: "int option"
  responseSize :: "int option"
  cost :: real
  tokensUsed :: tokens
  errorMessage :: "string option"
  errorCode :: "string option"
  timestamp :: time
  completedAt :: "time option"

record response_data =
  rd_responseTime :: "int option"
  rd_tokensUsed :: "tokens option"
  rd_responseSize :: "int option"

record app_error =
  err_message :: string
  err_code :: "string option"

text \<open>
  \<open>save()\<close> of an ApiCall document runs, in this order, the schema validation, the
  schema's pre-save hook and the write.

  Validation: of the fields kept here, \<open>endpoint\<close> is a required string, which an
  empty string does not satisfy, and \<open>cost\<close>, \<open>responseTime\<close> and \<open>responseSize\<close>
  carry \<open>min: 0\<close>; a document with an empty endpoint, or on which one of the three
  numbers is set and negative, is rejected with a validation error and nothing is written.
  (The user reference and the cost are required and always present here; the status is an
  enum, which the datatype cannot violate.)

  The pre-save hook: when \<open>responseStatus\<close> was modified, is \<open>'success'\<close>, and
  \<open>completedAt\<close> is not set, \<open>completedAt\<close> becomes the current time. Whether the path
  was modified is Mongoose's bookkeeping and is an argument here.

  The write may fail (the store is unreachable, the document has vanished); whether it
  succeeds is an argument.
\<close>

definition valid_api_call :: "api_call \<Rightarrow> bool" where
  "valid_api_call e =
     (endpoint e \<noteq> [] \<and> 0 \<le> cost e
      \<and> (case responseTime e of None \<Rightarrow> True | Some t \<Rightarrow> 0 \<le> t)
      \<and> (case responseSize e of None \<Rightarrow> True | Some n \<Rightarrow> 0 \<le> n))"

definition validation_error :: app_error where
  "validation_error = \<lparr>err_message = ''ApiCall validation failed'', err_code = None\<rparr>"

definition storage_error :: app_error where
  "storage_error = \<lparr>err_message = ''storage error'', err_code = None\<rparr>"

definition pre_save :: "bool \<Rightarrow> time \<Rightarrow> api_call \<Rightarrow> api_call" where
  "pre_save statusModified now e =
     (if statusModified \<and> responseStatus e = Success \<and> completedAt e = None
      then e\<lparr>completedAt := Some now\<rparr> else e)"

definition save_api_call :: "bool \<Rightarrow> bool \<Rightarrow> time \<Rightarrow> api_call \<Rightarrow> app_error + api_call" where
  "save_api_call write_ok statusModified now e =
     (if \<not> valid_api_call e then Inl validation_error
      else if \<not> write_ok then Inl storage_error
      else Inr (pre_save statusModified now e))"

text \<open>JavaScript truthiness of an optional number: absent and 0 are falsy.\<close>

definition truthy_num :: "int option \<Rightarrow> bool" where
  "truthy_num x = (case x of None \<Rightarrow> False | Some n \<Rightarrow> n \<noteq> 0)"

text \<open>
  \<open>markCompleted\<close> and \<open>markFailed\<close> assign fields of the in-memory document and return
  \<open>this.save()\<close>. The assignments are \<open>markCompleted_assign\<close> and \<open>markFailed_assign\<close>:
  they are what the in-memory document holds afterwards, whether or not the save is
  accepted. The methods themselves yield the stored document (\<open>Inr\<close>) or the error with
  which the save rejects (\<open>Inl\<close>), in which case the stored document is unchanged.
\<close>

definition markCompleted_assign :: "time \<Rightarrow> response_data \<Rightarrow> api_call \<Rightarrow> api_call" where
  "markCompleted_assign now rd e =
     (let e1 = e\<lparr>completedAt := Some now, responseStatus := Success\<rparr>;
          e2 = (if truthy_num (rd_responseTime rd) then e1\<lparr>responseTime := rd_responseTime rd\<rparr> else e1);
          e3 = (case rd_tokensUsed rd of Some t \<Rightarrow> e2\<lparr>tokensUsed := t\<rparr> | None \<Rightarrow> e2);
          e4 = (if truthy_num (rd_responseSize rd) then e3\<lparr>responseSize := rd_responseSize rd\<rparr> else e3)
      in e4)"

definition markCompleted :: "bool \<Rightarrow> time \<Rightarrow> response_data \<Rightarrow> api_call \<Rightarrow> app_error + api_call" where
  "markCompleted write_ok now rd e =
     save_api_call write_ok (responseStatus e \<noteq> Success) now (markCompleted_assign now rd e)"

definition markFailed_assign :: "time \<Rightarrow> app_error \<Rightarrow> api_call \<Rightarrow> api_call" where
  "markFailed_assign now err e =
     e\<lparr>completedAt := Some now, responseStatus := Error,
       errorMessage := Some (err_message err), errorCode := err_code err\<rparr>"

definition markFailed :: "bool \<Rightarrow> time \<Rightarrow> app_error \<Rightarrow> api_call \<Rightarrow> app_error + api_call" where
  "markFailed write_ok now err e =
     save_api_call write_ok (responseStatus e \<noteq> Error) now (markFailed_assign now err e)"


subsection \<open>The plan-based rate-limit middleware (middleware/rateLimit.js)\<close>

text \<open>
  The middleware either calls \<open>next()\<close> (the request goes on to the controller) or answers
  itself with a status and an error code. On the regular path it sets the remaining-quota
  headers before \<open>next()\<close>; on the admin path and in the catch handler it sets none.
\<close>

record rate_headers =
  remaining_monthly :: int
  remaining_daily :: int
  remaining_perMinute :: int

datatype mw_result = Next "rate_headers option" | Json nat string

text \<open>
  The awaited storage operations of the middleware; each may reject. The set of operations
  that reject during one request is part of the request's environment.
\<close>

datatype io_op = OpGetPlan | OpSaveUser | OpAggregateDaily | OpAggregateMinute

text \<open>
  The two aggregations count the documents of the \<open>apicalls\<close> collection whose \<open>user\<close> is
  the requesting user and whose \<open>timestamp\<close> is at or after a bound; no other field is
  matched.
\<close>

definition calls_since :: "api_call list \<Rightarrow> nat \<Rightarrow> time \<Rightarrow> int" where
  "calls_since calls uid t =
     int (length (filter (\<lambda>c. ac_user c = uid \<and> timestamp c \<ge> t) calls))"

text \<open>
  The body of the \<open>try\<close> block. \<open>Inl\<close> is an exception raised inside it; the user value
  returned is the in-memory document \<open>req.user\<close>, which \<open>checkMonthlyReset\<close> mutates
  before it saves.
\<close>

definition rateLimit_try ::
  "clock \<Rightarrow> pricing list \<Rightarrow> api_call list \<Rightarrow> io_op set \<Rightarrow> time \<Rightarrow> user
     \<Rightarrow> (app_error + mw_result) \<times> user" where
  "rateLimit_try clk catalog calls faults now u =
     (if role u = RoleAdmin then (Inr (Next None), u)
      else if OpGetPlan \<in> faults then (Inl storage_error, u)
      else case getPlan catalog (sub_plan u) of
        None \<Rightarrow> (Inr (Json 500 ''PRICING_ERROR''), u)
      | Some p \<Rightarrow>
        let u1 = checkMonthlyReset clk now u in
        if shouldResetMonthlyUsage clk now u \<and> OpSaveUser \<in> faults then (Inl storage_error, u1)
        else
          let monthlyLimit = lim_monthlyCalls (limits p);
              currentUsage = monthlyCalls (usage u1)
          in
          if currentUsage \<ge> monthlyLimit then (Inr (Json 429 ''MONTHLY_LIMIT_EXCEEDED''), u1)
          else
            let dailyLimit = lim_dailyCalls (limits p);
                today = startOfDay clk now
            in
            if OpAggregateDaily \<in> faults then (Inl storage_error, u1)
            else
              let dailyUsage = calls_since calls (user_id u1) today in
              if dailyUsage \<ge> dailyLimit then (Inr (Json 429 ''DAILY_LIMIT_EXCEEDED''), u1)
              else
                let perMinuteLimit = lim_requestsPerMinute (limits p);
                    oneMinuteAgo = now - 60 * 1000
                in
                if OpAggregateMinute \<in> faults then (Inl storage_error, u1)
                else
                  let recentCallCount = calls_since calls (user_id u1) oneMinuteAgo in
                  if recentCallCount \<ge> perMinuteLimit
                  then (Inr (Json 429 ''RATE_LIMIT_EXCEEDED''), u1)
                  else (Inr (Next (Some \<lparr>remaining_monthly = monthlyLimit - currentUsage,
                                           remaining_daily = dailyLimit - dailyUsage,
                                           remaining_perMinute = perMinuteLimit - recentCallCount\<rparr>)),
                        u1))"

text \<open>
  The whole middleware: the \<open>catch\<close> handler logs the error and calls \<open>next()\<close>
  (``If rate limiting fails, allow the request but log the error'').
\<close>

definition rateLimit ::
  "clock \<Rightarrow> pricing list \<Rightarrow> api_call list \<Rightarrow> io_op set \<Rightarrow> time \<Rightarrow> user \<Rightarrow> mw_result \<times> user" where
  "rateLimit clk catalog calls faults now u =
     (case rateLimit_try clk catalog calls faults now u of
        (Inl err, u') \<Rightarrow> (Next None, u')
      | (Inr r, u') \<Rightarrow> (r, u'))"

text \<open>
  The daily check as the specification words it (section 4.2, step 4): the events of the
  user in the trailing twenty-four hours whose state is completed or pending are counted,
  and the request is refused when that count plus the number of requested units exceeds
  the daily limit. This definition follows the specification, not the source; in the
  source's terms an event that is completed or pending is one whose \<open>responseStatus\<close> is
  \<open>'success'\<close> (the status of a new event and of a completed one).
\<close>

definition spec_daily_count :: "api_call list \<Rightarrow> nat \<Rightarrow> time \<Rightarrow> int" where
  "spec_daily_count calls uid now =
     int (length (filter (\<lambda>c. ac_user c = uid \<and> now - 24 * 60 * 60 * 1000 \<le> timestamp c
                               \<and> timestamp c \<le> now \<and> responseStatus c = Success) calls))"

definition spec_daily_limit_exceeded :: "pricing \<Rightarrow> api_call list \<Rightarrow> nat \<Rightarrow> time \<Rightarrow> int \<Rightarrow> bool" where
  "spec_daily_limit_exceeded p calls uid now unitCount =
     (spec_daily_count calls uid now + unitCount > lim_dailyCalls (limits p))"

subsection \<open>The summary controller\<close>

record summary_request =
  validation_ok :: bool
  title :: "string option"
  content :: "string option"

record batch_request =
  batch_validation_ok :: bool
  items :: "string list"

text \<open>
  The external work (the summarization call) either throws or returns; what it returns is
  kept only as far as the controller reads it: the summary text and the byte length of the
  serialised result for a single summary, the total of the reported tokens and the byte
  length for a batch. \<open>generateBatchSummaries\<close> catches the failure of each item and
  returns an error entry in its place, so a batch whose items failed, even all of them, is
  a batch that returned (\<open>BatchDone\<close>); \<open>BatchFails\<close> is a failure of the call as a
  whole.

  A handler answers with a status (\<open>Reply\<close>, \<open>Reply200\<close> with the cost and the
  remaining calls), forwards an error with \<open>next(error)\<close> (\<open>NextError\<close>), or, when
  \<open>markFailed\<close> rejects inside the catch block, ends with that rejection and neither
  answers nor forwards (\<open>Rejected\<close>).
\<close>

datatype work_result = WorkFails app_error | WorkDone string nat

datatype batch_work_result = BatchFails app_error | BatchDone int nat

datatype ctl_result = Reply nat | Reply200 real int | NextError app_error | Rejected app_error

definition truthy_str :: "string option \<Rightarrow> bool" where
  "truthy_str x = (case x of None \<Rightarrow> False | Some s \<Rightarrow> s \<noteq> [])"

definition js_or :: "string option \<Rightarrow> string option \<Rightarrow> string option" where
  "js_or a b = (if truthy_str a then a else b)"

definition str_of :: "string option \<Rightarrow> string" where
  "str_of x = (case x of None \<Rightarrow> [] | Some s \<Rightarrow> s)"

definition ceil_div4 :: "nat \<Rightarrow> int" where
  "ceil_div4 n = (int n + 3) div 4"

text \<open>
  \<open>new ApiCall({...})\<close>: the fields not given take the schema defaults, in particular
  \<open>responseStatus = 'success'\<close> and no \<open>completedAt\<close>. The handler then saves the
  document; a default is not a modification, so the pre-save hook leaves \<open>completedAt\<close>
  unset.
\<close>

definition new_api_call :: "nat \<Rightarrow> string \<Rightarrow> real \<Rightarrow> time \<Rightarrow> api_call" where
  "new_api_call uid ep c now =
     \<lparr> ac_user = uid, endpoint = ep, responseStatus = Success, responseTime = None,
       responseSize = None, cost = c,
       tokensUsed = \<lparr>tk_prompt = 0, tk_completion = 0, tk_total = 0\<rparr>,
       errorMessage = None, errorCode = None, timestamp = now, completedAt = None \<rparr>"

definition not_found_error :: app_error where
  "not_found_error = \<lparr>err_message = ''Pricing plan not found'', err_code = Some ''NOT_FOUND_ERROR''\<rparr>"

text \<open>
  The catch block of both handlers, entered with the error, the in-memory event and what
  is stored of it so far (nothing, when the first save was rejected): it marks the event
  failed and forwards the error. When \<open>markFailed\<close> rejects, that rejection leaves the
  handler, \<open>next\<close> is not called and the stored event stays as it was.
\<close>

definition catch_block ::
  "time \<Rightarrow> app_error \<Rightarrow> api_call \<Rightarrow> api_call list \<Rightarrow> user \<Rightarrow> api_call list
     \<Rightarrow> ctl_result \<times> user \<times> api_call list" where
  "catch_block fin err doc stored u calls =
     (case markFailed True fin err doc of
        Inr e \<Rightarrow> (NextError err, u, calls @ [e])
      | Inl err' \<Rightarrow> (Rejected err', u, calls @ stored))"

text \<open>
  \<open>getSummary\<close>. \<open>now\<close> is the time at which the handler starts, \<open>fin\<close> the time at
  which the external work has returned; the response time handed to \<open>markCompleted\<close> is
  their difference, which is negative when the clock was set back in between. The state is
  the in-memory user document and the \<open>apicalls\<close> collection. The writes of the
  controller are taken to succeed; the validation that its saves of the event run is
  modelled.
\<close>

definition getSummary ::
  "clock \<Rightarrow> pricing list \<Rightarrow> time \<Rightarrow> time \<Rightarrow> summary_request \<Rightarrow> work_result
     \<Rightarrow> user \<Rightarrow> api_call list \<Rightarrow> ctl_result \<times> user \<times> api_call list" where
  "getSummary clk catalog now fin rq work u calls =
     (if \<not> validation_ok rq then (Reply 400, u, calls)
      else if \<not> truthy_str (title rq) \<and> \<not> truthy_str (content rq) then (Reply 400, u, calls)
      else
        let u1 = checkMonthlyReset clk now u in
        if \<not> canMakeApiCall u1 then (Reply 429, u1, calls)
        else case getPlan catalog (sub_plan u1) of
          None \<Rightarrow> (NextError not_found_error, u1, calls)
        | Some p \<Rightarrow>
          (let c = getEffectivePrice p (monthlyCalls (usage u1));
               apiCall = new_api_call (user_id u1) ''/api/summary'' c now
           in case save_api_call True False now apiCall of
             Inl err \<Rightarrow> catch_block fin err apiCall [] u1 calls
           | Inr saved \<Rightarrow>
             (case work of
                WorkFails err \<Rightarrow> catch_block fin err saved [saved] u1 calls
              | WorkDone summary nbytes \<Rightarrow>
                (let inputTokens = ceil_div4 (length (str_of (js_or (content rq) (title rq))));
                     outputTokens = ceil_div4 (length summary);
                     tk = \<lparr>tk_prompt = inputTokens, tk_completion = outputTokens,
                            tk_total = inputTokens + outputTokens\<rparr>;
                     rd = \<lparr>rd_responseTime = Some (fin - now), rd_tokensUsed = Some tk,
                            rd_responseSize = Some (int nbytes)\<rparr>
                 in case markCompleted True fin rd saved of
                      Inl err \<Rightarrow>
                        catch_block fin err (markCompleted_assign fin rd saved) [saved] u1 calls
                    | Inr apiCall' \<Rightarrow>
                        (let u2 = incrementUsage fin c u1
                         in (Reply200 c (lim_monthlyCalls (limits p) - monthlyCalls (usage u2)),
                             u2, calls @ [apiCall']))))))"

text \<open>
  \<open>getBatchSummaries\<close>. The plan is looked up first; the monthly reset and the quota check
  against the catalog limit follow the feature and batch-size checks.
\<close>

definition getBatchSummaries ::
  "clock \<Rightarrow> pricing list \<Rightarrow> time \<Rightarrow> time \<Rightarrow> batch_request \<Rightarrow> batch_work_result
     \<Rightarrow> user \<Rightarrow> api_call list \<Rightarrow> ctl_result \<times> user \<times> api_call list" where
  "getBatchSummaries clk catalog now fin rq work u calls =
     (if \<not> batch_validation_ok rq then (Reply 400, u, calls)
      else case getPlan catalog (sub_plan u) of
        None \<Rightarrow> (Reply 403, u, calls)
      | Some p \<Rightarrow>
        if \<not> hasFeature_batchProcessing p then (Reply 403, u, calls)
        else if int (length (items rq)) > lim_batchSize (limits p) then (Reply 400, u, calls)
        else
          let u1 = checkMonthlyReset clk now u;
              remainingCalls = lim_monthlyCalls (limits p) - monthlyCalls (usage u1)
          in
          if remainingCalls < int (length (items rq)) then (Reply 429, u1, calls)
          else
            let c = getEffectivePrice p (monthlyCalls (usage u1)) * real (length (items rq));
                apiCall = new_api_call (user_id u1) ''/api/summary/batch'' c now
            in (case save_api_call True False now apiCall of
              Inl err \<Rightarrow> catch_block fin err apiCall [] u1 calls
            | Inr saved \<Rightarrow>
              (case work of
                 BatchFails err \<Rightarrow> catch_block fin err saved [saved] u1 calls
               | BatchDone totalTokens nbytes \<Rightarrow>
                 (let tk = \<lparr>tk_prompt = \<lceil>real_of_int totalTokens * 0.6\<rceil>,
                            tk_completion = \<lceil>real_of_int totalTokens * 0.4\<rceil>,
                            tk_total = totalTokens\<rparr>;
                      rd = \<lparr>rd_responseTime = Some (fin - now), rd_tokensUsed = Some tk,
                             rd_responseSize = Some (int nbytes)\<rparr>
                  in case markCompleted True fin rd saved of
                       Inl err \<Rightarrow>
                         catch_block fin err (markCompleted_assign fin rd saved) [saved] u1 calls
                     | Inr apiCall' \<Rightarrow>
                         (let u2 = incrementUsage fin c u1
                          in (Reply200 c (lim_monthlyCalls (limits p) - monthlyCalls (usage u2)),
                              u2, calls @ [apiCall']))))))"

text \<open>
  Both handlers as one function of the request body, and the error with which the
  external work of a body throws, if it does.
\<close>

datatype request_body = Summary summary_request work_result | Batch batch_request batch_work_result

definition run_controller ::
  "clock \<Rightarrow> pricing list \<Rightarrow> time \<Rightarrow> time \<Rightarrow> request_body \<Rightarrow> user \<Rightarrow> api_call list
     \<Rightarrow> ctl_result \<times> user \<times> api_call list" where
  "run_controller clk catalog now fin body u calls =
     (case body of
        Summary sr w \<Rightarrow> getSummary clk catalog now fin sr w u calls
      | Batch br w \<Rightarrow> getBatchSummaries clk catalog now fin br w u calls)"

fun work_throws :: "request_body \<Rightarrow> app_error option" where
  "work_throws (Summary sr (WorkFails err)) = Some err"
| "work_throws (Summary sr (WorkDone summary nbytes)) = None"
| "work_throws (Batch br (BatchFails err)) = Some err"
| "work_throws (Batch br (BatchDone totalTokens nbytes)) = None"

subsection \<open>A request through the route, and sequences of requests\<close>

text \<open>
  The routes are \<open>router.post('/', auth, rateLimit, getSummary)\<close> and
  \<open>router.post('/batch', auth, rateLimit, getBatchSummaries)\<close>: the controller runs when
  the middleware calls \<open>next()\<close>, on the same \<open>req.user\<close> document. A sequence of
  requests of one user is run one after the other, each on the state the previous one left.
\<close>

record request =
  rq_now :: time
  rq_fin :: time
  rq_faults :: "io_op set"
  rq_body :: request_body

datatype outcome = RateLimited nat string | Handled ctl_result

definition handle_request ::
  "clock \<Rightarrow> pricing list \<Rightarrow> request \<Rightarrow> user \<times> api_call list \<Rightarrow> outcome \<times> user \<times> api_call list" where
  "handle_request clk catalog rq st =
     (case st of (u, calls) \<Rightarrow>
       (case rateLimit clk catalog calls (rq_faults rq) (rq_now rq) u of
          (Json status code, u') \<Rightarrow> (RateLimited status code, u', calls)
        | (Next h, u') \<Rightarrow>
            (case rq_body rq of
               Summary sr w \<Rightarrow>
                 (case getSummary clk catalog (rq_now rq) (rq_fin rq) sr w u' calls of
                    (r, st') \<Rightarrow> (Handled r, st'))
             | Batch br w \<Rightarrow>
                 (case getBatchSummaries clk catalog (rq_now rq) (rq_fin rq) br w u' calls of
                    (r, st') \<Rightarrow> (Handled r, st')))))"

fun run ::
  "clock \<Rightarrow> pricing list \<Rightarrow> request list \<Rightarrow> user \<times> api_call list
     \<Rightarrow> outcome list \<times> user \<times> api_call list" where
  "run clk catalog [] st = ([], st)"
| "run clk catalog (rq # rqs) st =
     (case handle_request clk catalog rq st of
        (out, st') \<Rightarrow> (case run clk catalog rqs st' of (outs, st'') \<Rightarrow> (out # outs, st'')))"

text \<open>A request is admitted when the middleware has let it through to the controller.\<close>

definition admitted :: "outcome \<Rightarrow> bool" where
  "admitted out = (case out of Handled r \<Rightarrow> True | RateLimited status code \<Rightarrow> False)"

subsection \<open>Concrete data for the examples\<close>

text \<open>
  The examples are set in January 1970 on a server whose local time is UTC: there
  \<open>setMonth(getMonth() + 1)\<close> adds 31 days and \<open>setHours(0, 0, 0, 0)\<close> rounds down to a
  multiple of one day.
\<close>

definition day_ms :: int where
  "day_ms = 24 * 60 * 60 * 1000"

definition hour_ms :: int where
  "hour_ms = 60 * 60 * 1000"

definition utc_january :: clock where
  "utc_january = \<lparr> addMonth = (\<lambda>t. t + 31 * day_ms), startOfDay = (\<lambda>t. t - t mod day_ms) \<rparr>"

text \<open>The basic plan of the seed script and the free plan that the API test creates.\<close>

definition basic_plan :: pricing where
  "basic_plan = \<lparr> pr_plan = ''basic'', pricePerCall = 0.01,
     limits = \<lparr> lim_monthlyCalls = 1000, lim_dailyCalls = 100,
                 lim_requestsPerMinute = 10, lim_batchSize = 5 \<rparr>,
     batchProcessing = True, isActive = True \<rparr>"

definition test_free_plan :: pricing where
  "test_free_plan = \<lparr> pr_plan = ''free'', pricePerCall = 0,
     limits = \<lparr> lim_monthlyCalls = 10, lim_dailyCalls = 5,
                 lim_requestsPerMinute = 2, lim_batchSize = 1 \<rparr>,
     batchProcessing = False, isActive = True \<rparr>"

definition scenario_tiers :: "(int \<times> real) list" where
  "scenario_tiers = [(1000, 0.95), (10000, 0.9)]"

definition example_user :: "role \<Rightarrow> string \<Rightarrow> int \<Rightarrow> user" where
  "example_user r pl n =
     \<lparr> user_id = 1, role = r, sub_plan = pl,
       usage = \<lparr> totalCalls = n, monthlyReset = 0, monthlyCalls = n, lastCallAt = None \<rparr>,
       totalSpent = 0 \<rparr>"

definition title_request :: summary_request where
  "title_request = \<lparr> validation_ok = True, title = Some ''Alan Turing'', content = None \<rparr>"

definition external_error :: app_error where
  "external_error = \<lparr> err_message = ''Failed to generate AI summary'',
                        err_code = Some ''EXTERNAL_SERVICE_ERROR'' \<rparr>"


text \<open>
  Requests of the examples: a summary by title whose external work succeeds, one hour and
  two hours into the first of January; a batch of three titles; a call recorded at 02:00
  of the first day and completed, and a call recorded shortly after midnight of the second
  day and failed.
\<close>

definition summary_ok :: request where
  "summary_ok = \<lparr> rq_now = hour_ms, rq_fin = hour_ms + 1500, rq_faults = {},
                    rq_body = Summary title_request (WorkDone ''A summary.'' 64) \<rparr>"

definition summary_later :: request where
  "summary_later = \<lparr> rq_now = 2 * hour_ms, rq_fin = 2 * hour_ms + 1500, rq_faults = {},
                       rq_body = Summary title_request (WorkDone ''A summary.'' 64) \<rparr>"

definition batch_of_three :: batch_request where
  "batch_of_three = \<lparr> batch_validation_ok = True,
                        items = [''Alan Turing'', ''Ada Lovelace'', ''Grace Hopper''] \<rparr>"

definition yesterday_call :: api_call where
  "yesterday_call =
     markCompleted_assign (2 * hour_ms + 1500)
       \<lparr>rd_responseTime = Some 1500, rd_tokensUsed = None, rd_responseSize = Some 64\<rparr>
       (new_api_call 1 ''/api/summary'' 0 (2 * hour_ms))"

definition today_call :: api_call where
  "today_call =
     markFailed_assign (day_ms + 1500) external_error
       (new_api_call 1 ''/api/summary'' 0 (day_ms + 1000))"


section \<open>Unfolding the definitions\<close>

lemmas example_defs =
  example_user_def test_free_plan_def basic_plan_def utc_january_def day_ms_def hour_ms_def
  title_request_def external_error_def summary_ok_def summary_later_def batch_of_three_def
  yesterday_call_def today_call_def

lemmas code_defs =
  handle_request_def rateLimit_def rateLimit_try_def getSummary_def getBatchSummaries_def
  getPlan_def checkMonthlyReset_def shouldResetMonthlyUsage_def canMakeApiCall_def
  getUsageLimits_def limits_table_def object_prototype_names_def incrementUsage_def
  getEffectivePrice_def new_api_call_def markCompleted_def markFailed_def pre_save_def
  markCompleted_assign_def markFailed_assign_def save_api_call_def valid_api_call_def
  catch_block_def run_controller_def
  truthy_num_def truthy_str_def js_or_def str_of_def ceil_div4_def calls_since_def
  hasFeature_batchProcessing_def

section \<open>Properties of the operations\<close>

text \<open>What the monthly reset and the increment keep and change.\<close>

lemma checkMonthlyReset_keeps [simp]:
  "role (checkMonthlyReset clk now u) = role u"
  "sub_plan (checkMonthlyReset clk now u) = sub_plan u"
  "user_id (checkMonthlyReset clk now u) = user_id u"
  "totalCalls (usage (checkMonthlyReset clk now u)) = totalCalls (usage u)"
  by (simp_all add: checkMonthlyReset_def)

lemma checkMonthlyReset_idem [simp]:
  "checkMonthlyReset clk now (checkMonthlyReset clk now u) = checkMonthlyReset clk now u"
  by (simp add: checkMonthlyReset_def shouldResetMonthlyUsage_def)

lemma checkMonthlyReset_monthlyCalls:
  "monthlyCalls (usage (checkMonthlyReset clk now u)) =
     (if shouldResetMonthlyUsage clk now u then 0 else monthlyCalls (usage u))"
  by (simp add: checkMonthlyReset_def)

lemma incrementUsage_keeps [simp]:
  "role (incrementUsage now c u) = role u"
  "sub_plan (incrementUsage now c u) = sub_plan u"
  "user_id (incrementUsage now c u) = user_id u"
  "monthlyCalls (usage (incrementUsage now c u)) = monthlyCalls (usage u) + 1"
  "totalCalls (usage (incrementUsage now c u)) = totalCalls (usage u) + 1"
  by (simp_all add: incrementUsage_def)

text \<open>What the middleware leaves of the user document, and what passing it means.\<close>

lemma rateLimit_user:
  "rateLimit clk catalog calls faults now u = (r, u')
   \<Longrightarrow> u' = u \<or> u' = checkMonthlyReset clk now u"
  by (auto simp add: rateLimit_def rateLimit_try_def Let_def split: if_splits option.splits)

lemma rateLimit_passes:
  assumes "role u \<noteq> RoleAdmin" and "getPlan catalog (sub_plan u) = Some p"
    and "OpGetPlan \<notin> faults" and "OpSaveUser \<notin> faults"
    and "rateLimit clk catalog calls faults now u = (Next h, u')"
  shows "u' = checkMonthlyReset clk now u
         \<and> monthlyCalls (usage u') < lim_monthlyCalls (limits p)"
  using assms
  by (auto simp add: rateLimit_def rateLimit_try_def Let_def split: if_splits)

lemma rateLimit_refuses:
  assumes "role u \<noteq> RoleAdmin" and "getPlan catalog (sub_plan u) = Some p"
    and "OpGetPlan \<notin> faults" and "OpSaveUser \<notin> faults"
    and "lim_monthlyCalls (limits p) \<le> monthlyCalls (usage (checkMonthlyReset clk now u))"
  shows "rateLimit clk catalog calls faults now u
           = (Json 429 ''MONTHLY_LIMIT_EXCEEDED'', checkMonthlyReset clk now u)"
  using assms
  by (simp add: rateLimit_def rateLimit_try_def Let_def)

text \<open>
  What a close stores, when it is accepted, and what the catch block and the handlers
  leave of the user document and of the event of the request.
\<close>

lemma catch_block_outcome:
  assumes "catch_block fin err doc stored u calls = (r, u', calls')"
  shows "u' = u
       \<and> ((r = NextError err \<and> valid_api_call doc \<and> calls' = calls @ [markFailed_assign fin err doc])
          \<or> (r = Rejected validation_error \<and> \<not> valid_api_call doc \<and> calls' = calls @ stored))"
  using assms
  by (auto simp add: catch_block_def markFailed_def save_api_call_def markFailed_assign_def
      valid_api_call_def pre_save_def split: if_splits)

lemma save_new_api_call:
  "save_api_call True False now (new_api_call uid ep c t) =
     (if ep \<noteq> [] \<and> 0 \<le> c then Inr (new_api_call uid ep c t) else Inl validation_error)"
  by (simp add: save_api_call_def valid_api_call_def new_api_call_def pre_save_def)

lemma markFailed_assign_fields [simp]:
  "responseStatus (markFailed_assign now err e) = Error"
  "completedAt (markFailed_assign now err e) = Some now"
  "errorMessage (markFailed_assign now err e) = Some (err_message err)"
  "errorCode (markFailed_assign now err e) = err_code err"
  "cost (markFailed_assign now err e) = cost e"
  "timestamp (markFailed_assign now err e) = timestamp e"
  "ac_user (markFailed_assign now err e) = ac_user e"
  "responseTime (markFailed_assign now err e) = responseTime e"
  "responseSize (markFailed_assign now err e) = responseSize e"
  "endpoint (markFailed_assign now err e) = endpoint e"
  by (simp_all add: markFailed_assign_def)

lemma markCompleted_assign_fields [simp]:
  "responseStatus (markCompleted_assign now rd e) = Success"
  "completedAt (markCompleted_assign now rd e) = Some now"
  "cost (markCompleted_assign now rd e) = cost e"
  "timestamp (markCompleted_assign now rd e) = timestamp e"
  "ac_user (markCompleted_assign now rd e) = ac_user e"
  "endpoint (markCompleted_assign now rd e) = endpoint e"
  by (simp_all add: markCompleted_assign_def Let_def split: option.split)

lemma new_api_call_fields [simp]:
  "responseStatus (new_api_call uid ep c t) = Success"
  "completedAt (new_api_call uid ep c t) = None"
  "valid_api_call (new_api_call uid ep c t) = (ep \<noteq> [] \<and> 0 \<le> c)"
  by (simp_all add: new_api_call_def valid_api_call_def)

lemma markCompleted_result:
  "markCompleted ok now rd e =
     (if valid_api_call (markCompleted_assign now rd e)
      then (if ok then Inr (markCompleted_assign now rd e) else Inl storage_error)
      else Inl validation_error)"
  by (simp add: markCompleted_def save_api_call_def pre_save_def)

lemma markFailed_result:
  "markFailed ok now err e =
     (if valid_api_call e
      then (if ok then Inr (markFailed_assign now err e) else Inl storage_error)
      else Inl validation_error)"
  by (simp add: markFailed_def save_api_call_def pre_save_def valid_api_call_def)

lemma getSummary_outcome:
  assumes "getSummary clk catalog now fin rq w u calls = (r, u', calls')"
  shows "(calls' = calls \<and> (u' = u \<or> u' = checkMonthlyReset clk now u) \<and> (\<forall>c k. r \<noteq> Reply200 c k))
       \<or> (\<exists>e err. calls' = calls @ [e] \<and> responseStatus e = Error \<and> completedAt e = Some fin
              \<and> r = NextError err \<and> u' = checkMonthlyReset clk now u
              \<and> work_throws (Summary rq w) = Some err)
       \<or> (\<exists>e c k. calls' = calls @ [e] \<and> responseStatus e = Success \<and> completedAt e = Some fin
              \<and> r = Reply200 c k \<and> u' = incrementUsage fin c (checkMonthlyReset clk now u)
              \<and> work_throws (Summary rq w) = None)
       \<or> (\<exists>e err. calls' = calls @ [e] \<and> responseStatus e = Success \<and> completedAt e = None
              \<and> r = Rejected err \<and> u' = checkMonthlyReset clk now u
              \<and> work_throws (Summary rq w) = None)"
proof (cases w)
  case (WorkFails err)
  with assms show ?thesis
    by (auto simp add: getSummary_def Let_def save_new_api_call catch_block_def markFailed_result
        split: if_splits option.splits)
next
  case (WorkDone summary nbytes)
  with assms show ?thesis
    by (auto simp add: getSummary_def Let_def save_new_api_call catch_block_def markFailed_result
        markCompleted_result split: if_splits option.splits)
qed

lemma getBatchSummaries_outcome:
  assumes "getBatchSummaries clk catalog now fin rq w u calls = (r, u', calls')"
  shows "(calls' = calls \<and> (u' = u \<or> u' = checkMonthlyReset clk now u) \<and> (\<forall>c k. r \<noteq> Reply200 c k))
       \<or> (\<exists>e err. calls' = calls @ [e] \<and> responseStatus e = Error \<and> completedAt e = Some fin
              \<and> r = NextError err \<and> u' = checkMonthlyReset clk now u
              \<and> work_throws (Batch rq w) = Some err)
       \<or> (\<exists>e c k. calls' = calls @ [e] \<and> responseStatus e = Success \<and> completedAt e = Some fin
              \<and> r = Reply200 c k \<and> u' = incrementUsage fin c (checkMonthlyReset clk now u)
              \<and> work_throws (Batch rq w) = None)
       \<or> (\<exists>e err. calls' = calls @ [e] \<and> responseStatus e = Success \<and> completedAt e = None
              \<and> r = Rejected err \<and> u' = checkMonthlyReset clk now u
              \<and> work_throws (Batch rq w) = None)"
proof (cases w)
  case (BatchFails err)
  with assms show ?thesis
    by (auto simp add: getBatchSummaries_def Let_def save_new_api_call catch_block_def markFailed_result
        split: if_splits option.splits)
next
  case (BatchDone totalTokens nbytes)
  with assms show ?thesis
    by (auto simp add: getBatchSummaries_def Let_def save_new_api_call catch_block_def markFailed_result
        markCompleted_result split: if_splits option.splits)
qed

lemma getSummary_user:
  "getSummary clk catalog now fin rq w u calls = (r, u', calls')
   \<Longrightarrow> (\<exists>c k. r = Reply200 c k \<and> u' = incrementUsage fin c (checkMonthlyReset clk now u))
       \<or> ((\<forall>c k. r \<noteq> Reply200 c k) \<and> (u' = u \<or> u' = checkMonthlyReset clk now u))"
  using getSummary_outcome [of clk catalog now fin rq w u calls r u' calls'] by auto

lemma getBatchSummaries_user:
  "getBatchSummaries clk catalog now fin rq w u calls = (r, u', calls')
   \<Longrightarrow> (\<exists>c k. r = Reply200 c k \<and> u' = incrementUsage fin c (checkMonthlyReset clk now u))
       \<or> ((\<forall>c k. r \<noteq> Reply200 c k) \<and> (u' = u \<or> u' = checkMonthlyReset clk now u))"
  using getBatchSummaries_outcome [of clk catalog now fin rq w u calls r u' calls'] by auto


text \<open>One request through the route.\<close>

lemma handle_request_keeps:
  assumes "handle_request clk catalog rq (u, calls) = (out, u', calls')"
  shows "role u' = role u \<and> sub_plan u' = sub_plan u"
proof -
  obtain r u1 where mw: "rateLimit clk catalog calls (rq_faults rq) (rq_now rq) u = (r, u1)"
    by (cases "rateLimit clk catalog calls (rq_faults rq) (rq_now rq) u")
  from rateLimit_user [OF mw] have k1: "role u1 = role u \<and> sub_plan u1 = sub_plan u"
    by auto
  show ?thesis
  proof (cases r)
    case (Json status code)
    with assms mw have "u' = u1" by (simp add: handle_request_def)
    with k1 show ?thesis by simp
  next
    case (Next h)
    show ?thesis
    proof (cases "rq_body rq")
      case (Summary sr w)
      with assms mw Next obtain r' where
        "getSummary clk catalog (rq_now rq) (rq_fin rq) sr w u1 calls = (r', u', calls')"
        by (auto simp add: handle_request_def split: prod.splits)
      from getSummary_user [OF this] k1 show ?thesis by auto
    next
      case (Batch br w)
      with assms mw Next obtain r' where
        "getBatchSummaries clk catalog (rq_now rq) (rq_fin rq) br w u1 calls = (r', u', calls')"
        by (auto simp add: handle_request_def split: prod.splits)
      from getBatchSummaries_user [OF this] k1 show ?thesis by auto
    qed
  qed
qed

lemma handle_request_admitted_bound:
  assumes na: "role u \<noteq> RoleAdmin" and pl: "getPlan catalog (sub_plan u) = Some p"
    and f1: "OpGetPlan \<notin> rq_faults rq" and f2: "OpSaveUser \<notin> rq_faults rq"
    and hr: "handle_request clk catalog rq (u, calls) = (out, u', calls')"
    and ad: "admitted out"
  shows "monthlyCalls (usage u') \<le> lim_monthlyCalls (limits p)"
proof -
  obtain r u1 where mw: "rateLimit clk catalog calls (rq_faults rq) (rq_now rq) u = (r, u1)"
    by (cases "rateLimit clk catalog calls (rq_faults rq) (rq_now rq) u")
  from hr mw ad obtain h where nx: "r = Next h"
    by (cases r) (auto simp add: handle_request_def admitted_def)
  from rateLimit_passes [OF na pl f1 f2 mw [unfolded nx]]
  have u1: "u1 = checkMonthlyReset clk (rq_now rq) u"
    and lt: "monthlyCalls (usage u1) < lim_monthlyCalls (limits p)" by auto
  have idem: "checkMonthlyReset clk (rq_now rq) u1 = u1" by (simp add: u1)
  show ?thesis
  proof (cases "rq_body rq")
    case (Summary sr w)
    with hr mw nx obtain r' where
      "getSummary clk catalog (rq_now rq) (rq_fin rq) sr w u1 calls = (r', u', calls')"
      by (auto simp add: handle_request_def split: prod.splits)
    from getSummary_user [OF this] idem lt show ?thesis by auto
  next
    case (Batch br w)
    with hr mw nx obtain r' where
      "getBatchSummaries clk catalog (rq_now rq) (rq_fin rq) br w u1 calls = (r', u', calls')"
      by (auto simp add: handle_request_def split: prod.splits)
    from getBatchSummaries_user [OF this] idem lt show ?thesis by auto
  qed
qed

lemma handle_request_refused_user:
  assumes hr: "handle_request clk catalog rq (u, calls) = (out, u', calls')"
    and ad: "\<not> admitted out"
  shows "u' = u \<or> u' = checkMonthlyReset clk (rq_now rq) u"
proof -
  obtain r u1 where mw: "rateLimit clk catalog calls (rq_faults rq) (rq_now rq) u = (r, u1)"
    by (cases "rateLimit clk catalog calls (rq_faults rq) (rq_now rq) u")
  from hr mw ad have "u' = u1"
    by (cases r) (auto simp add: handle_request_def admitted_def split: request_body.splits prod.splits)
  with rateLimit_user [OF mw] show ?thesis by simp
qed

lemma handle_request_invariant:
  assumes na: "role u \<noteq> RoleAdmin" and pl: "getPlan catalog (sub_plan u) = Some p"
    and f1: "OpGetPlan \<notin> rq_faults rq" and f2: "OpSaveUser \<notin> rq_faults rq"
    and hr: "handle_request clk catalog rq (u, calls) = (out, u', calls')"
    and nn: "0 \<le> lim_monthlyCalls (limits p)"
    and le: "monthlyCalls (usage u) \<le> lim_monthlyCalls (limits p)"
  shows "monthlyCalls (usage u') \<le> lim_monthlyCalls (limits p)"
proof (cases "admitted out")
  case True
  from handle_request_admitted_bound [OF na pl f1 f2 hr True] show ?thesis .
next
  case False
  from handle_request_refused_user [OF hr False] nn le show ?thesis
    by (auto simp add: checkMonthlyReset_monthlyCalls)
qed

lemma handle_request_at_limit:
  assumes na: "role u \<noteq> RoleAdmin" and pl: "getPlan catalog (sub_plan u) = Some p"
    and f1: "OpGetPlan \<notin> rq_faults rq" and f2: "OpSaveUser \<notin> rq_faults rq"
    and ge: "lim_monthlyCalls (limits p) \<le> monthlyCalls (usage (checkMonthlyReset clk (rq_now rq) u))"
  shows "handle_request clk catalog rq (u, calls)
           = (RateLimited 429 ''MONTHLY_LIMIT_EXCEEDED'', checkMonthlyReset clk (rq_now rq) u, calls)"
  using rateLimit_refuses [OF na pl f1 f2 ge]
  by (simp add: handle_request_def)

lemma handle_request_completed_adds_one:
  assumes hr: "handle_request clk catalog rq (u, calls) = (Handled (Reply200 c k), u', calls')"
  shows "monthlyCalls (usage u') = monthlyCalls (usage (checkMonthlyReset clk (rq_now rq) u)) + 1"
proof -
  obtain r u1 where mw: "rateLimit clk catalog calls (rq_faults rq) (rq_now rq) u = (r, u1)"
    by (cases "rateLimit clk catalog calls (rq_faults rq) (rq_now rq) u")
  from hr mw obtain h where nx: "r = Next h"
    by (cases r) (auto simp add: handle_request_def)
  from rateLimit_user [OF mw]
  have rs: "checkMonthlyReset clk (rq_now rq) u1 = checkMonthlyReset clk (rq_now rq) u"
    by auto
  show ?thesis
  proof (cases "rq_body rq")
    case (Summary sr w)
    with hr mw nx have
      "getSummary clk catalog (rq_now rq) (rq_fin rq) sr w u1 calls = (Reply200 c k, u', calls')"
      by (auto simp add: handle_request_def split: prod.splits)
    from getSummary_user [OF this] rs show ?thesis by auto
  next
    case (Batch br w)
    with hr mw nx have
      "getBatchSummaries clk catalog (rq_now rq) (rq_fin rq) br w u1 calls = (Reply200 c k, u', calls')"
      by (auto simp add: handle_request_def split: prod.splits)
    from getBatchSummaries_user [OF this] rs show ?thesis by auto
  qed
qed

lemma run_length:
  "run clk catalog rqs st = (outs, st') \<Longrightarrow> length outs = length rqs"
  by (induction rqs arbitrary: st outs st') (auto split: prod.splits)

lemma run_keeps:
  "run clk catalog rqs (u, calls) = (outs, u', calls')
   \<Longrightarrow> role u' = role u \<and> sub_plan u' = sub_plan u"
proof (induction rqs arbitrary: u calls outs)
  case Nil
  then show ?case by simp
next
  case (Cons rq rqs)
  then obtain out u1 calls1 outs1 where
    hr: "handle_request clk catalog rq (u, calls) = (out, u1, calls1)"
    and rn: "run clk catalog rqs (u1, calls1) = (outs1, u', calls')"
    by (auto split: prod.splits)
  from Cons.IH [OF rn] handle_request_keeps [OF hr] show ?case by simp
qed

lemma run_last_admitted:
  assumes "role u \<noteq> RoleAdmin" and "getPlan catalog (sub_plan u) = Some p"
    and "\<forall>rq \<in> set rqs. OpGetPlan \<notin> rq_faults rq \<and> OpSaveUser \<notin> rq_faults rq"
    and "run clk catalog rqs (u, calls) = (outs, u', calls')"
    and "rqs \<noteq> []" and "admitted (last outs)"
  shows "monthlyCalls (usage u') \<le> lim_monthlyCalls (limits p)"
  using assms
proof (induction rqs arbitrary: u calls outs)
  case Nil
  then show ?case by simp
next
  case (Cons rq rqs)
  from Cons.prems(4) obtain out u1 calls1 outs1 where
    hr: "handle_request clk catalog rq (u, calls) = (out, u1, calls1)"
    and rn: "run clk catalog rqs (u1, calls1) = (outs1, u', calls')"
    and outs: "outs = out # outs1"
    by (auto split: prod.splits)
  from Cons.prems(3) have f: "OpGetPlan \<notin> rq_faults rq" "OpSaveUser \<notin> rq_faults rq"
    and fs: "\<forall>rq \<in> set rqs. OpGetPlan \<notin> rq_faults rq \<and> OpSaveUser \<notin> rq_faults rq"
    by auto
  show ?case
  proof (cases "rqs = []")
    case True
    with rn outs Cons.prems(6) have "u' = u1" "admitted out" by auto
    with handle_request_admitted_bound [OF Cons.prems(1) Cons.prems(2) f hr] show ?thesis
      by simp
  next
    case False
    from run_length [OF rn] False have "outs1 \<noteq> []" by auto
    with outs Cons.prems(6) have la: "admitted (last outs1)" by simp
    from handle_request_keeps [OF hr] Cons.prems(1) Cons.prems(2)
    have k: "role u1 \<noteq> RoleAdmin" "getPlan catalog (sub_plan u1) = Some p" by auto
    from Cons.IH [OF k fs rn False la] show ?thesis .
  qed
qed

lemma run_invariant:
  assumes "role u \<noteq> RoleAdmin" and "getPlan catalog (sub_plan u) = Some p"
    and "\<forall>rq \<in> set rqs. OpGetPlan \<notin> rq_faults rq \<and> OpSaveUser \<notin> rq_faults rq"
    and "run clk catalog rqs (u, calls) = (outs, u', calls')"
    and "0 \<le> lim_monthlyCalls (limits p)"
    and "monthlyCalls (usage u) \<le> lim_monthlyCalls (limits p)"
  shows "monthlyCalls (usage u') \<le> lim_monthlyCalls (limits p)"
  using assms
proof (induction rqs arbitrary: u calls outs)
  case Nil
  then show ?case by simp
next
  case (Cons rq rqs)
  from Cons.prems(4) obtain out u1 calls1 outs1 where
    hr: "handle_request clk catalog rq (u, calls) = (out, u1, calls1)"
    and rn: "run clk catalog rqs (u1, calls1) = (outs1, u', calls')"
    by (auto split: prod.splits)
  from Cons.prems(3) have f: "OpGetPlan \<notin> rq_faults rq" "OpSaveUser \<notin> rq_faults rq"
    and fs: "\<forall>rq \<in> set rqs. OpGetPlan \<notin> rq_faults rq \<and> OpSaveUser \<notin> rq_faults rq"
    by auto
  from handle_request_keeps [OF hr] Cons.prems(1) Cons.prems(2)
  have k: "role u1 \<noteq> RoleAdmin" "getPlan catalog (sub_plan u1) = Some p" by auto
  from handle_request_invariant [OF Cons.prems(1) Cons.prems(2) f hr Cons.prems(5) Cons.prems(6)]
  have le1: "monthlyCalls (usage u1) \<le> lim_monthlyCalls (limits p)" .
  from Cons.IH [OF k fs rn Cons.prems(5) le1] show ?case .
qed


section \<open>The usage event\<close>



section \<open>The cost calculator\<close>

text \<open>
  C5, as stated, fails at the threshold itself. With the tiers of Scenario C and the price
  0.01 per call, the specification's rule (the highest tier whose threshold is less than or
  equal to k) gives 0.0095 at k = 1000; the method compares with a strict \<open>>\<close> and
  charges the undiscounted 0.01 there.
\<close>

theorem C5_threshold_counterexample:
  "getEffectivePrice basic_plan 1000 = 0.01
   \<and> spec_unit_price (pricePerCall basic_plan) scenario_tiers 1000 = 0.0095
   \<and> getEffectivePrice basic_plan 1000 \<noteq> spec_unit_price (pricePerCall basic_plan) scenario_tiers 1000"
  by (simp add: getEffectivePrice_def spec_unit_price_def spec_tier_multiplier_def
      scenario_tiers_def basic_plan_def)

text \<open>
  C5 amended: for every plan and every pre-request monthly call count k, the per-unit price
  is \<open>pricePerCall\<close> multiplied by the factor of the highest tier of the fixed list
  [(1000, 0.95), (10000, 0.9)] whose threshold is strictly less than k, and \<open>pricePerCall\<close>
  unmultiplied when no threshold is strictly less than k: \<open>pricePerCall * 0.9\<close> for
  k > 10000, \<open>pricePerCall * 0.95\<close> for 1000 < k \<le> 10000, \<open>pricePerCall\<close> for k \<le> 1000.
  The tiers are fixed in the method, not read from the plan. In particular the price at
  k = 1500 with \<open>pricePerCall = 0.01\<close> is 0.0095. (On integers, a threshold strictly less
  than k is one less than or equal to k - 1, which is how the second conjunct uses the
  specification's rule.)
\<close>

theorem C5_effective_price_strict_tiers:
  "getEffectivePrice p k =
     (if 10000 < k then pricePerCall p * 0.9
      else if 1000 < k then pricePerCall p * 0.95
      else pricePerCall p)
   \<and> getEffectivePrice p k = spec_unit_price (pricePerCall p) scenario_tiers (k - 1)
   \<and> getEffectivePrice basic_plan 1500 = 0.0095"
  by (simp add: getEffectivePrice_def basic_plan_def spec_unit_price_def spec_tier_multiplier_def
      scenario_tiers_def)

text \<open>
  C8: the cost calculator is a function of the plan and the pre-request call count k: the
  method reads \<open>this.pricePerCall\<close> and its argument and nothing else, so equal inputs give
  equal prices, and no other field of the plan changes the price. For a fixed plan, whose
  price per call is not negative as the schema requires, the per-unit price does not
  increase as k grows.
\<close>

theorem C8_price_monotone:
  assumes "0 \<le> pricePerCall p" and "k \<le> k'"
  shows "getEffectivePrice p k' \<le> getEffectivePrice p k
       \<and> getEffectivePrice (p\<lparr>pr_plan := pl, limits := l, batchProcessing := b, isActive := a\<rparr>) k
           = getEffectivePrice p k"
  using assms by (auto simp add: getEffectivePrice_def mult_left_le)

theorem C8_price_monotone_witness:
  "0 \<le> pricePerCall basic_plan \<and> (500::int) \<le> 20000
   \<and> getEffectivePrice basic_plan 20000 \<le> getEffectivePrice basic_plan 500
   \<and> getEffectivePrice basic_plan 20000 = 0.009 \<and> getEffectivePrice basic_plan 500 = 0.01"
proof -
  have a: "0 \<le> pricePerCall basic_plan" by (simp add: basic_plan_def)
  have b: "(500::int) \<le> 20000" by simp
  from C8_price_monotone [OF a b]
  have "getEffectivePrice basic_plan 20000 \<le> getEffectivePrice basic_plan 500" by simp
  with a b show ?thesis
    by (simp add: getEffectivePrice_def basic_plan_def)
qed

section \<open>The rate-limit middleware\<close>

text \<open>
  C9: for every request whose user has the role admin, the middleware calls \<open>next()\<close> at
  once: whatever the catalog, the recorded calls, the failing storage operations and the
  time, the result is \<open>next()\<close> without rate-limit headers and the user document is
  untouched (no monthly reset is run), so none of the plan-not-found, monthly, daily or
  per-minute answers is produced.
\<close>

theorem C9_admin_skips_limits:
  "role u = RoleAdmin \<Longrightarrow> rateLimit clk catalog calls faults now u = (Next None, u)"
  by (simp add: rateLimit_def rateLimit_try_def)

theorem C9_admin_skips_limits_witness:
  "role (example_user RoleAdmin ''free'' 10) = RoleAdmin
   \<and> rateLimit utc_january [test_free_plan] [] {} hour_ms (example_user RoleAdmin ''free'' 10)
       = (Next None, example_user RoleAdmin ''free'' 10)
   \<and> fst (rateLimit utc_january [test_free_plan] [] {} hour_ms (example_user RoleUser ''free'' 10))
       = Json 429 ''MONTHLY_LIMIT_EXCEEDED''"
proof -
  have a: "role (example_user RoleAdmin ''free'' 10) = RoleAdmin"
    by (simp add: example_user_def)
  have b: "fst (rateLimit utc_january [test_free_plan] [] {} hour_ms (example_user RoleUser ''free'' 10))
       = Json 429 ''MONTHLY_LIMIT_EXCEEDED''"
    by (simp add: rateLimit_def rateLimit_try_def example_user_def getPlan_def test_free_plan_def
        checkMonthlyReset_def shouldResetMonthlyUsage_def utc_january_def day_ms_def hour_ms_def)
  from C9_admin_skips_limits [OF a] a b show ?thesis by simp
qed




text \<open>
  The aggregation matches the user and the timestamp only: the status of a recorded call
  does not enter the count.
\<close>

lemma calls_since_ignores_status:
  "calls_since (map (\<lambda>c. c\<lparr>responseStatus := g c\<rparr>) calls) uid t = calls_since calls uid t"
  by (induction calls) (simp_all add: calls_since_def)

text \<open>
  C6 states a rolling window of twenty-four hours over the events that are completed or
  pending. The middleware counts from local midnight (\<open>today.setHours(0, 0, 0, 0)\<close>; its
  comment calls the check a rough approximation). At 01:00 of the second day, five calls
  made at 02:00 of the first day lie within the last twenty-four hours, so the rule of the
  claim refuses a user whose daily limit is 5; the middleware counts none of them and lets
  the request through with a full daily allowance.
\<close>

theorem C6_calendar_day_counterexample:
  "spec_daily_limit_exceeded test_free_plan
      [yesterday_call, yesterday_call, yesterday_call, yesterday_call, yesterday_call]
      (user_id (example_user RoleUser ''free'' 5)) (day_ms + hour_ms) 1
   \<and> fst (rateLimit utc_january [test_free_plan]
      [yesterday_call, yesterday_call, yesterday_call, yesterday_call, yesterday_call] {}
      (day_ms + hour_ms) (example_user RoleUser ''free'' 5))
      = Next (Some \<lparr>remaining_monthly = 5, remaining_daily = 5, remaining_perMinute = 2\<rparr>)"
  by (simp add: code_defs example_defs yesterday_call_def spec_daily_limit_exceeded_def
      spec_daily_count_def Let_def)

text \<open>
  C6 amended: the daily check counts the usage events of the user whose timestamp is at or
  after the start of the current calendar day (local midnight of the server), whatever
  their status, and, when it is reached (the user is not an admin, the plan is found, the
  monthly check has passed and the storage answers), the middleware denies with
  \<open>DAILY_LIMIT_EXCEEDED\<close> exactly when that count is greater than or equal to the daily
  call limit of the plan; the number of requested units does not enter the comparison.
\<close>

theorem C6_daily_check_calendar_day:
  assumes "role u \<noteq> RoleAdmin" and "getPlan catalog (sub_plan u) = Some p"
    and "OpGetPlan \<notin> faults" and "OpSaveUser \<notin> faults" and "OpAggregateDaily \<notin> faults"
    and "monthlyCalls (usage (checkMonthlyReset clk now u)) < lim_monthlyCalls (limits p)"
  shows "(fst (rateLimit clk catalog calls faults now u) = Json 429 ''DAILY_LIMIT_EXCEEDED'')
           = (lim_dailyCalls (limits p) \<le> calls_since calls (user_id u) (startOfDay clk now))
       \<and> calls_since calls (user_id u) (startOfDay clk now)
           = int (length (filter (\<lambda>c. ac_user c = user_id u \<and> startOfDay clk now \<le> timestamp c) calls))
       \<and> calls_since (map (\<lambda>c. c\<lparr>responseStatus := g c\<rparr>) calls) (user_id u) (startOfDay clk now)
           = calls_since calls (user_id u) (startOfDay clk now)"
  using assms
  by (auto simp add: rateLimit_def rateLimit_try_def Let_def calls_since_ignores_status)
     (simp_all add: calls_since_def)


theorem C6_daily_check_calendar_day_witness:
  "role (example_user RoleUser ''free'' 0) \<noteq> RoleAdmin
   \<and> getPlan [test_free_plan] (sub_plan (example_user RoleUser ''free'' 0)) = Some test_free_plan
   \<and> OpGetPlan \<notin> ({} :: io_op set) \<and> OpSaveUser \<notin> ({} :: io_op set)
   \<and> OpAggregateDaily \<notin> ({} :: io_op set)
   \<and> monthlyCalls (usage (checkMonthlyReset utc_january (day_ms + hour_ms)
         (example_user RoleUser ''free'' 0))) < lim_monthlyCalls (limits test_free_plan)
   \<and> map responseStatus [today_call, today_call, today_call, today_call, today_call]
        = [Error, Error, Error, Error, Error]
   \<and> calls_since [today_call, today_call, today_call, today_call, today_call]
         (user_id (example_user RoleUser ''free'' 0)) (startOfDay utc_january (day_ms + hour_ms)) = 5
   \<and> lim_dailyCalls (limits test_free_plan) = 5
   \<and> fst (rateLimit utc_january [test_free_plan]
         [today_call, today_call, today_call, today_call, today_call] {} (day_ms + hour_ms)
         (example_user RoleUser ''free'' 0)) = Json 429 ''DAILY_LIMIT_EXCEEDED''"
proof -
  let ?u = "example_user RoleUser ''free'' 0"
  let ?calls = "[today_call, today_call, today_call, today_call, today_call]"
  have h1: "role ?u \<noteq> RoleAdmin" by (simp add: example_defs)
  have h2: "getPlan [test_free_plan] (sub_plan ?u) = Some test_free_plan"
    by (simp add: getPlan_def example_defs)
  have h3: "OpGetPlan \<notin> ({} :: io_op set)" and h4: "OpSaveUser \<notin> ({} :: io_op set)"
    and h5: "OpAggregateDaily \<notin> ({} :: io_op set)" by simp_all
  have h6: "monthlyCalls (usage (checkMonthlyReset utc_january (day_ms + hour_ms) ?u))
              < lim_monthlyCalls (limits test_free_plan)"
    by (simp add: checkMonthlyReset_def shouldResetMonthlyUsage_def example_defs)
  have st: "map responseStatus ?calls = [Error, Error, Error, Error, Error]"
    by (simp add: today_call_def markFailed_assign_def new_api_call_def)
  have cnt: "calls_since ?calls (user_id ?u) (startOfDay utc_january (day_ms + hour_ms)) = 5"
    by (simp add: calls_since_def today_call_def markFailed_assign_def new_api_call_def
        example_defs)
  have lim: "lim_dailyCalls (limits test_free_plan) = 5" by (simp add: example_defs)
  from C6_daily_check_calendar_day [OF h1 h2 h3 h4 h5 h6, where calls = ?calls] cnt lim
  have "fst (rateLimit utc_january [test_free_plan] ?calls {} (day_ms + hour_ms) ?u)
          = Json 429 ''DAILY_LIMIT_EXCEEDED''" by simp
  with h1 h2 h3 h4 h5 h6 st cnt lim show ?thesis by blast
qed

section \<open>The controllers\<close>







text \<open>
  C2 on the code: a batch of three items is admitted on the basic plan (batch processing,
  at most 5 items, 1000 calls a month), is priced as three calls (0.03) and is completed;
  \<open>incrementUsage\<close>, which takes no unit count, adds 1 to \<open>usage.monthlyCalls\<close>, and
  the answer reports 999 remaining calls.
\<close>

theorem C2_batch_of_three_counts_one:
  "length (items batch_of_three) = 3
   \<and> fst (getBatchSummaries utc_january [basic_plan] hour_ms (hour_ms + 1500) batch_of_three
            (BatchDone 900 2048) (example_user RoleUser ''basic'' 0) []) = Reply200 0.03 999
   \<and> monthlyCalls (usage (example_user RoleUser ''basic'' 0)) = 0
   \<and> monthlyCalls (usage (fst (snd (getBatchSummaries utc_january [basic_plan] hour_ms
            (hour_ms + 1500) batch_of_three (BatchDone 900 2048)
            (example_user RoleUser ''basic'' 0) [])))) = 1"
  by (simp add: code_defs example_defs Let_def)

section \<open>The monthly limit over sequences of requests\<close>

text \<open>
  C1 states the bound for every user. The middleware lets an admin through without any
  check, and the controller then compares with its own table (100 calls for the free plan).
  With the catalog of the API test, whose free plan allows 10 calls a month, an admin on
  the free plan with 10 calls is served and the counter becomes 11; the answer reports
  -1 remaining calls. A user who is not an admin is refused in the same state.
\<close>

theorem C1_admin_counterexample:
  "getPlan [test_free_plan] (sub_plan (example_user RoleAdmin ''free'' 10)) = Some test_free_plan
   \<and> lim_monthlyCalls (limits test_free_plan) = 10
   \<and> monthlyCalls (usage (example_user RoleAdmin ''free'' 10)) = 10
   \<and> fst (handle_request utc_january [test_free_plan] summary_ok
             (example_user RoleAdmin ''free'' 10, [])) = Handled (Reply200 0 (- 1))
   \<and> monthlyCalls (usage (fst (snd (handle_request utc_january [test_free_plan] summary_ok
             (example_user RoleAdmin ''free'' 10, []))))) = 11
   \<and> fst (handle_request utc_january [test_free_plan] summary_ok
             (example_user RoleUser ''free'' 10, [])) = RateLimited 429 ''MONTHLY_LIMIT_EXCEEDED''"
  by (simp add: code_defs example_defs Let_def)

text \<open>
  C1 amended: for every user who is not an admin and whose plan is in the catalog, and
  every sequence of requests in which the plan lookup and the saving of the monthly reset
  do not fail inside the middleware (an error there admits the request unchecked),
  \<open>usage.monthlyCalls\<close> does not exceed the monthly call limit of the plan after any
  admitted request; a counter that is within a non-negative limit stays within it along
  the whole sequence; and a request that arrives when the counter, after the reset check,
  has reached the limit is refused with \<open>MONTHLY_LIMIT_EXCEEDED\<close> and leaves the counter
  as it is, while a request that is served adds exactly 1: the bound is kept by refusing,
  the counter is never clamped. Requests are run one after the other; interleavings of
  concurrent requests are not modelled.
\<close>

theorem C1_monthly_limit_invariant:
  assumes "role u \<noteq> RoleAdmin" and "getPlan catalog (sub_plan u) = Some p"
    and "\<forall>rq \<in> set rqs. OpGetPlan \<notin> rq_faults rq \<and> OpSaveUser \<notin> rq_faults rq"
    and "run clk catalog rqs (u, calls) = (outs, u', calls')"
  shows "(rqs \<noteq> [] \<and> admitted (last outs)
            \<longrightarrow> monthlyCalls (usage u') \<le> lim_monthlyCalls (limits p))
       \<and> (0 \<le> lim_monthlyCalls (limits p) \<and> monthlyCalls (usage u) \<le> lim_monthlyCalls (limits p)
            \<longrightarrow> monthlyCalls (usage u') \<le> lim_monthlyCalls (limits p))
       \<and> (OpGetPlan \<notin> rq_faults rq \<and> OpSaveUser \<notin> rq_faults rq
          \<and> lim_monthlyCalls (limits p) \<le> monthlyCalls (usage (checkMonthlyReset clk (rq_now rq) u'))
            \<longrightarrow> handle_request clk catalog rq (u', calls')
                  = (RateLimited 429 ''MONTHLY_LIMIT_EXCEEDED'',
                     checkMonthlyReset clk (rq_now rq) u', calls'))
       \<and> (handle_request clk catalog rq (u', calls') = (Handled (Reply200 c k), u2, calls2)
            \<longrightarrow> monthlyCalls (usage u2)
                  = monthlyCalls (usage (checkMonthlyReset clk (rq_now rq) u')) + 1)"
proof (intro conjI impI)
  assume "rqs \<noteq> [] \<and> admitted (last outs)"
  with run_last_admitted [OF assms] show "monthlyCalls (usage u') \<le> lim_monthlyCalls (limits p)"
    by simp
next
  assume "0 \<le> lim_monthlyCalls (limits p) \<and> monthlyCalls (usage u) \<le> lim_monthlyCalls (limits p)"
  with run_invariant [OF assms] show "monthlyCalls (usage u') \<le> lim_monthlyCalls (limits p)"
    by simp
next
  assume a: "OpGetPlan \<notin> rq_faults rq \<and> OpSaveUser \<notin> rq_faults rq
          \<and> lim_monthlyCalls (limits p) \<le> monthlyCalls (usage (checkMonthlyReset clk (rq_now rq) u'))"
  from run_keeps [OF assms(4)] assms(1) assms(2)
  have k: "role u' \<noteq> RoleAdmin" "getPlan catalog (sub_plan u') = Some p" by auto
  from a handle_request_at_limit [OF k]
  show "handle_request clk catalog rq (u', calls')
          = (RateLimited 429 ''MONTHLY_LIMIT_EXCEEDED'', checkMonthlyReset clk (rq_now rq) u', calls')"
    by simp
next
  assume "handle_request clk catalog rq (u', calls') = (Handled (Reply200 c k), u2, calls2)"
  from handle_request_completed_adds_one [OF this]
  show "monthlyCalls (usage u2) = monthlyCalls (usage (checkMonthlyReset clk (rq_now rq) u')) + 1" .
qed

theorem C1_monthly_limit_invariant_witness:
  "role (example_user RoleUser ''free'' 9) \<noteq> RoleAdmin
   \<and> getPlan [test_free_plan] (sub_plan (example_user RoleUser ''free'' 9)) = Some test_free_plan
   \<and> OpGetPlan \<notin> rq_faults summary_ok \<and> OpSaveUser \<notin> rq_faults summary_ok
   \<and> fst (run utc_january [test_free_plan] [summary_ok] (example_user RoleUser ''free'' 9, []))
        = [Handled (Reply200 0 0)]
   \<and> admitted (last (fst (run utc_january [test_free_plan] [summary_ok] (example_user RoleUser ''free'' 9, []))))
   \<and> monthlyCalls (usage (fst (snd (run utc_january [test_free_plan] [summary_ok]
        (example_user RoleUser ''free'' 9, []))))) = 10
   \<and> monthlyCalls (usage (fst (snd (run utc_january [test_free_plan] [summary_ok]
        (example_user RoleUser ''free'' 9, []))))) \<le> lim_monthlyCalls (limits test_free_plan)
   \<and> fst (handle_request utc_january [test_free_plan] summary_later
        (snd (run utc_january [test_free_plan] [summary_ok] (example_user RoleUser ''free'' 9, []))))
        = RateLimited 429 ''MONTHLY_LIMIT_EXCEEDED''"
proof -
  let ?u = "example_user RoleUser ''free'' 9"
  let ?r = "run utc_january [test_free_plan] [summary_ok] (?u, [])"
  have h1: "role ?u \<noteq> RoleAdmin" by (simp add: example_defs)
  have h2: "getPlan [test_free_plan] (sub_plan ?u) = Some test_free_plan"
    by (simp add: getPlan_def example_defs)
  have h3: "\<forall>rq \<in> set [summary_ok]. OpGetPlan \<notin> rq_faults rq \<and> OpSaveUser \<notin> rq_faults rq"
    by (simp add: example_defs)
  have h4: "?r = (fst ?r, fst (snd ?r), snd (snd ?r))" by simp
  have outs: "fst ?r = [Handled (Reply200 0 0)]"
    by (simp add: code_defs example_defs Let_def)
  have m: "monthlyCalls (usage (fst (snd ?r))) = 10"
    by (simp add: code_defs example_defs Let_def)
  have ad: "admitted (last (fst ?r))" unfolding outs by (simp add: admitted_def)
  have f: "OpGetPlan \<notin> rq_faults summary_later \<and> OpSaveUser \<notin> rq_faults summary_later"
    by (simp add: example_defs)
  have nr: "checkMonthlyReset utc_january (rq_now summary_later) (fst (snd ?r)) = fst (snd ?r)"
    by (simp add: code_defs example_defs Let_def)
  have lim: "lim_monthlyCalls (limits test_free_plan) = 10" by (simp add: example_defs)
  note inst = C1_monthly_limit_invariant [OF h1 h2 h3 h4, where rq = summary_later]
  from inst ad have le: "monthlyCalls (usage (fst (snd ?r))) \<le> lim_monthlyCalls (limits test_free_plan)"
    by simp
  from inst f nr m lim have
    "handle_request utc_january [test_free_plan] summary_later (fst (snd ?r), snd (snd ?r))
       = (RateLimited 429 ''MONTHLY_LIMIT_EXCEEDED'', fst (snd ?r), snd (snd ?r))"
    by simp
  then have rf: "fst (handle_request utc_january [test_free_plan] summary_later (snd ?r))
       = RateLimited 429 ''MONTHLY_LIMIT_EXCEEDED''" by simp
  from h3 have h3': "OpGetPlan \<notin> rq_faults summary_ok \<and> OpSaveUser \<notin> rq_faults summary_ok"
    by simp
  from h1 h2 h3' outs ad m le rf show ?thesis by blast
qed

end
